theory Spec2Isabelle
  imports Complex_Main
begin

section \<open>Arrays and the library operations the notebooks call\<close>

text \<open>
  The three notebooks (ridge regression, lasso regression, Poisson maximum likelihood)
  compute on numpy arrays. A one-dimensional array is a list of numbers; a
  two-dimensional array carries its shape next to its rows, as numpy does, so that an
  array with no rows still has a column count. Numbers are exact reals: rounding of
  IEEE doubles is outside this development, and every statement below is about the
  arithmetic the code asks for, carried out exactly.
\<close>

type_synonym vec = "real list"

record matrix =
  nrows :: nat
  ncols :: nat
  rows :: "real list list"

text \<open>Exceptions that the code's calls can raise (all of them come from the libraries).\<close>

datatype error = ValueError | LinAlgError | AttributeError | IndexError

definition entry :: "matrix \<Rightarrow> nat \<Rightarrow> nat \<Rightarrow> real" where
  "entry A i j = rows A ! i ! j"

definition mk_matrix :: "nat \<Rightarrow> nat \<Rightarrow> (nat \<Rightarrow> nat \<Rightarrow> real) \<Rightarrow> matrix" where
  "mk_matrix n m f =
     \<lparr>nrows = n, ncols = m, rows = map (\<lambda>i. map (\<lambda>j. f i j) [0..<m]) [0..<n]\<rparr>"

text \<open>\<^verbatim>\<open>X.T\<close>, \<^verbatim>\<open>np.eye(p)\<close>, \<^verbatim>\<open>l * A\<close> and \<^verbatim>\<open>A + B\<close> (on equal shapes).\<close>

definition T :: "matrix \<Rightarrow> matrix" where
  "T X = mk_matrix (ncols X) (nrows X) (\<lambda>i j. entry X j i)"

definition eye :: "nat \<Rightarrow> matrix" where
  "eye p = mk_matrix p p (\<lambda>i j. if i = j then 1 else 0)"

definition smul :: "real \<Rightarrow> matrix \<Rightarrow> matrix" where
  "smul l A = mk_matrix (nrows A) (ncols A) (\<lambda>i j. l * entry A i j)"

definition madd :: "matrix \<Rightarrow> matrix \<Rightarrow> matrix" where
  "madd A B = mk_matrix (nrows A) (ncols A) (\<lambda>i j. entry A i j + entry B i j)"

text \<open>
  The sums of products behind \<^verbatim>\<open>dot\<close>, and \<^verbatim>\<open>dot\<close> itself, which raises
  \<^verbatim>\<open>ValueError\<close> when the inner dimensions differ.
\<close>

definition mv :: "matrix \<Rightarrow> vec \<Rightarrow> vec" where
  "mv A v = map (\<lambda>i. sum_list (map (\<lambda>k. entry A i k * v ! k) [0..<ncols A])) [0..<nrows A]"

definition mm :: "matrix \<Rightarrow> matrix \<Rightarrow> matrix" where
  "mm A B = mk_matrix (nrows A) (ncols B)
     (\<lambda>i j. sum_list (map (\<lambda>k. entry A i k * entry B k j) [0..<ncols A]))"

definition dot_mv :: "matrix \<Rightarrow> vec \<Rightarrow> error + vec" where
  "dot_mv A v = (if ncols A = length v then Inr (mv A v) else Inl ValueError)"

definition dot_mm :: "matrix \<Rightarrow> matrix \<Rightarrow> error + matrix" where
  "dot_mm A B = (if ncols A = nrows B then Inr (mm A B) else Inl ValueError)"

text \<open>
  \<^verbatim>\<open>a - b\<close> on one-dimensional arrays: elementwise on equal lengths, a length-one
  operand is broadcast, any other pair of lengths raises \<^verbatim>\<open>ValueError\<close>.
\<close>

definition vsub :: "vec \<Rightarrow> vec \<Rightarrow> error + vec" where
  "vsub a b =
     (if length a = length b then Inr (map2 (-) a b)
      else if length a = 1 then Inr (map (\<lambda>t. a ! 0 - t) b)
      else if length b = 1 then Inr (map (\<lambda>t. t - b ! 0) a)
      else Inl ValueError)"

section \<open>Lasso regression: the objective\<close>

text \<open>
  \<^verbatim>\<open>func = lambda w,y,x,lam: ((y - x.dot(w))**2).sum() + lam*w.sum()\<close>
\<close>

definition func :: "vec \<Rightarrow> vec \<Rightarrow> matrix \<Rightarrow> real \<Rightarrow> error + real" where
  "func w y x lam =
     (case dot_mv x w of
        Inl e \<Rightarrow> Inl e
      | Inr xw \<Rightarrow>
          (case vsub y xw of
             Inl e \<Rightarrow> Inl e
           | Inr r \<Rightarrow> Inr (sum_list (map (\<lambda>t. t ^ 2) r) + lam * sum_list w)))"

text \<open>
  The objective as the specification words it: the residual sum of squares plus
  \<open>lam\<close> times the L1 norm of \<open>w\<close>, the sum of the absolute values of its coefficients.
\<close>

definition l1_norm :: "vec \<Rightarrow> real" where
  "l1_norm w = sum_list (map abs w)"

definition lasso_objective_spec :: "vec \<Rightarrow> vec \<Rightarrow> matrix \<Rightarrow> real \<Rightarrow> error + real" where
  "lasso_objective_spec w y x lam =
     (case dot_mv x w of
        Inl e \<Rightarrow> Inl e
      | Inr xw \<Rightarrow>
          (case vsub y xw of
             Inl e \<Rightarrow> Inl e
           | Inr r \<Rightarrow> Inr (sum_list (map (\<lambda>t. t ^ 2) r) + lam * l1_norm w)))"

section \<open>The estimator objects and the library routines they call\<close>

text \<open>
  Both classes keep one attribute, \<^verbatim>\<open>self.w\<close>, which does not exist before the first
  \<^verbatim>\<open>fit\<close>. A method takes the world it can reach, the state of numpy's global random
  number generator and the object itself, and returns the generator state it leaves
  behind together with either the exception raised (the object is then as it was) or
  the updated object.
\<close>

record estimator =
  self_w :: "vec option"

text \<open>
  \<^verbatim>\<open>np.linalg.inv\<close>, \<^verbatim>\<open>scipy.optimize.minimize\<close> and \<^verbatim>\<open>np.random.rand\<close> are library
  routines: the methods take them as parameters. The inverse routine returns \<open>None\<close>
  when it raises \<^verbatim>\<open>LinAlgError\<close>. The optimiser receives the objective, the initial
  guess and the keyword arguments of the call, and returns its result object (or the
  exception it lets through).
\<close>

type_synonym linalg_inv = "matrix \<Rightarrow> matrix option"

record minimize_kwargs =
  kw_method :: "string option"
  kw_bounds :: "(real option \<times> real option) list option"

record 'v OptimizeResult =
  res_x :: vec
  res_success :: bool
  res_fun :: 'v
  res_nit :: nat

type_synonym 'v minimize =
  "(vec \<Rightarrow> error + 'v) \<Rightarrow> vec \<Rightarrow> minimize_kwargs \<Rightarrow> error + 'v OptimizeResult"

type_synonym 'g rand = "nat \<Rightarrow> 'g \<Rightarrow> vec \<times> 'g"

text \<open>
  A square matrix is singular when it sends some non-zero vector to zero.
\<close>

definition singular :: "matrix \<Rightarrow> bool" where
  "singular A \<longleftrightarrow>
     (\<exists>v. length v = ncols A \<and> v \<noteq> replicate (ncols A) 0 \<and> mv A v = replicate (nrows A) 0)"

subsection \<open>RidgeRegression\<close>

text \<open>The matrix \<^verbatim>\<open>C = l * eye + X.T.dot(X)\<close>.\<close>

definition ridge_C :: "real \<Rightarrow> matrix \<Rightarrow> matrix" where
  "ridge_C l X = madd (smul l (eye (ncols X))) (mm (T X) X)"

definition ridge_fit ::
  "linalg_inv \<Rightarrow> matrix \<Rightarrow> vec \<Rightarrow> real \<Rightarrow> 'g \<times> estimator \<Rightarrow> 'g \<times> (error + estimator)" where
  "ridge_fit linv X y l s =
     (let p = ncols X; X_T = T X; eye_p = eye p in
      case dot_mm X_T X of
        Inl e \<Rightarrow> (fst s, Inl e)
      | Inr XtX \<Rightarrow>
          (let C = madd (smul l eye_p) XtX in
           case linv C of
             None \<Rightarrow> (fst s, Inl LinAlgError)
           | Some Ci \<Rightarrow>
               (case dot_mv X_T y of
                  Inl e \<Rightarrow> (fst s, Inl e)
                | Inr Xty \<Rightarrow>
                    (case dot_mv Ci Xty of
                       Inl e \<Rightarrow> (fst s, Inl e)
                     | Inr w \<Rightarrow> (fst s, Inr ((snd s)\<lparr>self_w := Some w\<rparr>))))))"

text \<open>\<^verbatim>\<open>predict\<close> is the same method in both classes: \<^verbatim>\<open>return X.dot(self.w)\<close>.\<close>

definition predict :: "matrix \<Rightarrow> estimator \<Rightarrow> error + vec" where
  "predict X self = (case self_w self of None \<Rightarrow> Inl AttributeError | Some w \<Rightarrow> dot_mv X w)"

subsection \<open>LassoRegression\<close>

definition lasso_fit ::
  "real minimize \<Rightarrow> 'g rand \<Rightarrow> matrix \<Rightarrow> vec \<Rightarrow> real \<Rightarrow> 'g \<times> estimator \<Rightarrow>
   'g \<times> (error + estimator)" where
  "lasso_fit minimize rand X y lam s =
     (let p = ncols X; (w0, g') = rand p (fst s) in
      case minimize (\<lambda>w. func w y X lam) w0 \<lparr>kw_method = None, kw_bounds = None\<rparr> of
        Inl e \<Rightarrow> (g', Inl e)
      | Inr res \<Rightarrow> (g', Inr ((snd s)\<lparr>self_w := Some (res_x res)\<rparr>)))"

subsection \<open>Poisson maximum likelihood\<close>

text \<open>
  A value computed by numpy's floating-point functions is a number, or one of
  \<^verbatim>\<open>nan\<close>, \<^verbatim>\<open>inf\<close>, \<^verbatim>\<open>-inf\<close>, which numpy returns (with a warning) instead of
  raising: \<^verbatim>\<open>np.log\<close> of zero is \<^verbatim>\<open>-inf\<close> and of a negative number \<^verbatim>\<open>nan\<close>.
\<close>

datatype npfloat = Finite real | NotFinite

definition np_log :: "real \<Rightarrow> npfloat" where
  "np_log t = (if 0 < t then Finite (ln t) else NotFinite)"

text \<open>
  \<^verbatim>\<open>def f(x): return np.math.factorial(x)\<close>, which raises \<^verbatim>\<open>ValueError\<close> on a
  negative integer.
\<close>

definition f_fact :: "int \<Rightarrow> error + nat" where
  "f_fact k = (if k < 0 then Inl ValueError else Inr (fact (nat k)))"

primrec map_err :: "('a \<Rightarrow> error + 'b) \<Rightarrow> 'a list \<Rightarrow> error + 'b list" where
  "map_err g [] = Inr []"
| "map_err g (a # as) =
     (case g a of
        Inl e \<Rightarrow> Inl e
      | Inr b \<Rightarrow> (case map_err g as of Inl e \<Rightarrow> Inl e | Inr bs \<Rightarrow> Inr (b # bs)))"

text \<open>
  \<^verbatim>\<open>factorial = np.vectorize(f)\<close>. A function vectorised without declared output
  types is called on the first element of its argument to find them, and numpy raises
  \<^verbatim>\<open>ValueError\<close> when the argument has no element. The factorials of counts up to
  20 fit the 64-bit integers of the resulting array; larger counts are not covered here,
  and the statements below about the objective are made for counts up to 20.
\<close>

definition factorial :: "int list \<Rightarrow> error + nat list" where
  "factorial ks = (if ks = [] then Inl ValueError else map_err f_fact ks)"

text \<open>
  \<^verbatim>\<open>log_likelihood = lambda theta,x: len(x)*theta - np.sum(x)*np.log(theta)
  + np.sum(np.log(factorial(x)))\<close>. A value that is not finite stays so through the
  products and sums around it.
\<close>

definition log_likelihood :: "real \<Rightarrow> int list \<Rightarrow> error + npfloat" where
  "log_likelihood theta ks =
     (case factorial ks of
        Inl e \<Rightarrow> Inl e
      | Inr fs \<Rightarrow>
          Inr (case np_log theta of
                 NotFinite \<Rightarrow> NotFinite
               | Finite lg \<Rightarrow>
                   Finite (real (length ks) * theta - real_of_int (sum_list ks) * lg
                           + sum_list (map (\<lambda>k. ln (real k)) fs))))"

text \<open>
  \<^verbatim>\<open>lik_model = minimize(log_likelihood, np.array([3]), (goal_data.Total.values),
  method='L-BFGS-B')\<close> and \<^verbatim>\<open>theta = lik_model["x"][0]\<close>. The call names the method
  and gives no \<^verbatim>\<open>bounds\<close>. The optimiser works on arrays of the shape of the initial
  guess, here one element.
\<close>

definition lik_model_kwargs :: minimize_kwargs where
  "lik_model_kwargs = \<lparr>kw_method = Some ''L-BFGS-B'', kw_bounds = None\<rparr>"

definition lik_model :: "npfloat minimize \<Rightarrow> int list \<Rightarrow> error + npfloat OptimizeResult" where
  "lik_model minimize ks =
     minimize (\<lambda>v. case v of [t] \<Rightarrow> log_likelihood t ks | _ \<Rightarrow> Inl ValueError) [3]
       lik_model_kwargs"

definition theta_estimate :: "npfloat minimize \<Rightarrow> int list \<Rightarrow> error + real" where
  "theta_estimate minimize ks =
     (case lik_model minimize ks of
        Inl e \<Rightarrow> Inl e
      | Inr res \<Rightarrow> (case res_x res of [] \<Rightarrow> Inl IndexError | t # _ \<Rightarrow> Inr t))"

section \<open>Library routines for concrete runs\<close>

text \<open>
  Where a statement is evaluated on concrete data, the library parameters are filled
  with the following routines. The inverse is Gauss-Jordan elimination in exact
  arithmetic on the matrix extended by the identity; it fails when a column has no
  non-zero pivot left.
\<close>

definition swap_rows :: "real list list \<Rightarrow> nat \<Rightarrow> nat \<Rightarrow> real list list" where
  "swap_rows M i j = M[i := M ! j, j := M ! i]"

definition find_pivot :: "real list list \<Rightarrow> nat \<Rightarrow> nat option" where
  "find_pivot M k = List.find (\<lambda>r. M ! r ! k \<noteq> 0) [k..<length M]"

definition eliminate :: "real list list \<Rightarrow> nat \<Rightarrow> real list list" where
  "eliminate M k =
     (let pr = map (\<lambda>t. t / (M ! k ! k)) (M ! k) in
      map (\<lambda>i. if i = k then pr else map2 (\<lambda>a b. a - M ! i ! k * b) (M ! i) pr)
        [0..<length M])"

fun gauss_jordan :: "real list list \<Rightarrow> nat list \<Rightarrow> real list list option" where
  "gauss_jordan M [] = Some M"
| "gauss_jordan M (k # ks) =
     (case find_pivot M k of
        None \<Rightarrow> None
      | Some r \<Rightarrow> gauss_jordan (eliminate (swap_rows M k r) k) ks)"

definition exact_inv :: linalg_inv where
  "exact_inv A =
     (let n = nrows A in
      if ncols A \<noteq> n then None
      else
        (case gauss_jordan
                (map (\<lambda>i. map (entry A i) [0..<n] @ map (entry (eye n) i) [0..<n]) [0..<n])
                [0..<n] of
           None \<Rightarrow> None
         | Some M \<Rightarrow> Some \<lparr>nrows = n, ncols = n, rows = map (drop n) M\<rparr>))"



text \<open>
  An optimiser run cut off after one trial step of length \<open>d\<close>: it evaluates the
  objective at the initial guess and at the point \<open>d\<close> below it in every coordinate,
  moved into the bounds when the call gives bounds, lets an exception of the objective
  through, and returns the trial point with \<^verbatim>\<open>success = False\<close>. With \<open>d = 0\<close> it
  returns the initial guess.
\<close>

definition clip :: "real option \<times> real option \<Rightarrow> real \<Rightarrow> real" where
  "clip b t =
     (let t1 = (case fst b of None \<Rightarrow> t | Some lo \<Rightarrow> max lo t)
      in case snd b of None \<Rightarrow> t1 | Some hi \<Rightarrow> min hi t1)"

definition project :: "(real option \<times> real option) list option \<Rightarrow> vec \<Rightarrow> vec" where
  "project bs v = (case bs of None \<Rightarrow> v | Some bl \<Rightarrow> map2 clip bl v)"

definition minimize_one_step :: "real \<Rightarrow> 'v minimize" where
  "minimize_one_step d obj x0 kw =
     (case obj x0 of
        Inl e \<Rightarrow> Inl e
      | Inr v0 \<Rightarrow>
          (let x1 = project (kw_bounds kw) (map (\<lambda>t. t - d) x0) in
           case obj x1 of
             Inl e \<Rightarrow> Inl e
           | Inr v1 \<Rightarrow> Inr \<lparr>res_x = x1, res_success = False, res_fun = v1, res_nit = 1\<rparr>))"

text \<open>
  A small linear congruential generator on the states \<open>0, \<dots>, 15\<close>, drawing numbers
  in the half-open unit interval as \<^verbatim>\<open>np.random.rand\<close> does.
\<close>

primrec lcg_rand :: "nat rand" where
  "lcg_rand 0 g = ([], g)"
| "lcg_rand (Suc p) g =
     (let g1 = (5 * g + 3) mod 16; (us, g2) = lcg_rand p g1 in (real g1 / 16 # us, g2))"

section \<open>Theorems\<close>

subsection \<open>Sums, shapes and entries\<close>

lemma sum_list_upt: "sum_list (map f [0..<n]) = (\<Sum>k<n. f k)"
  by (simp add: interv_sum_list_conv_sum_set_nat atLeast0LessThan)

lemma nrows_mk [simp]: "nrows (mk_matrix n m f) = n"
  and ncols_mk [simp]: "ncols (mk_matrix n m f) = m"
  by (simp_all add: mk_matrix_def)

lemma entry_mk [simp]: "i < n \<Longrightarrow> j < m \<Longrightarrow> entry (mk_matrix n m f) i j = f i j"
  by (simp add: mk_matrix_def entry_def)


lemma length_mv [simp]: "length (mv A v) = nrows A"
  by (simp add: mv_def)

lemma mv_nth: "i < nrows A \<Longrightarrow> mv A v ! i = (\<Sum>k<ncols A. entry A i k * v ! k)"
  by (simp add: mv_def sum_list_upt)

lemma entry_mm: "i < nrows A \<Longrightarrow> j < ncols B \<Longrightarrow>
  entry (mm A B) i j = (\<Sum>k<ncols A. entry A i k * entry B k j)"
  by (simp add: mm_def sum_list_upt)

lemma mv_assoc:
  assumes "ncols A = nrows B"
  shows "mv A (mv B v) = mv (mm A B) v"
proof (rule nth_equalityI)
  show "length (mv A (mv B v)) = length (mv (mm A B) v)" by (simp add: mm_def)
next
  fix i assume "i < length (mv A (mv B v))"
  then have i: "i < nrows A" by simp
  have "mv A (mv B v) ! i = (\<Sum>k<ncols A. entry A i k * (\<Sum>j<ncols B. entry B k j * v ! j))"
    using i assms by (simp add: mv_nth)
  also have "\<dots> = (\<Sum>k<ncols A. \<Sum>j<ncols B. entry A i k * entry B k j * v ! j)"
    by (simp add: sum_distrib_left mult.assoc)
  also have "\<dots> = (\<Sum>j<ncols B. \<Sum>k<ncols A. entry A i k * entry B k j * v ! j)"
    by (rule sum.swap)
  also have "\<dots> = (\<Sum>j<ncols B. entry (mm A B) i j * v ! j)"
    using i by (simp add: entry_mm sum_distrib_right)
  also have "\<dots> = mv (mm A B) v ! i"
    using i by (simp add: mv_nth mm_def)
  finally show "mv A (mv B v) ! i = mv (mm A B) v ! i" .
qed

lemma mv_eye: "length v = p \<Longrightarrow> mv (eye p) v = v"
proof (rule nth_equalityI)
  show "length v = p \<Longrightarrow> length (mv (eye p) v) = length v" by (simp add: eye_def)
next
  fix i assume lv: "length v = p" and "i < length (mv (eye p) v)"
  then have i: "i < p" by (simp add: eye_def)
  have "mv (eye p) v ! i = (\<Sum>k<p. (if i = k then 1 else 0) * v ! k)"
    using i by (simp add: mv_nth eye_def)
  also have "\<dots> = (\<Sum>k<p. if k = i then v ! k else 0)"
    by (rule sum.cong) auto
  also have "\<dots> = v ! i" using i by simp
  finally show "mv (eye p) v ! i = v ! i" .
qed

subsection \<open>The ridge matrix\<close>

lemma shape_ridge_C [simp]: "nrows (ridge_C l X) = ncols X" "ncols (ridge_C l X) = ncols X"
  by (simp_all add: ridge_C_def madd_def smul_def eye_def)



lemma ridge_fit_unfold:
  "ridge_fit linv X y l s =
     (case linv (ridge_C l X) of
        None \<Rightarrow> (fst s, Inl LinAlgError)
      | Some Ci \<Rightarrow>
          if nrows X \<noteq> length y then (fst s, Inl ValueError)
          else if ncols Ci \<noteq> ncols X then (fst s, Inl ValueError)
          else (fst s, Inr ((snd s)\<lparr>self_w := Some (mv Ci (mv (T X) y))\<rparr>)))"
  by (simp add: ridge_fit_def ridge_C_def dot_mm_def dot_mv_def T_def split: option.splits)


lemma mv_diff:
  assumes "length u = ncols A" and "length v = ncols A"
  shows "mv A (map2 (-) u v) = map2 (-) (mv A u) (mv A v)"
proof (rule nth_equalityI)
  show "length (mv A (map2 (-) u v)) = length (map2 (-) (mv A u) (mv A v))" by simp
next
  fix i assume "i < length (mv A (map2 (-) u v))"
  then have i: "i < nrows A" by simp
  have "mv A (map2 (-) u v) ! i = (\<Sum>k<ncols A. entry A i k * (u ! k - v ! k))"
    using i assms by (simp add: mv_nth)
  also have "\<dots> = (\<Sum>k<ncols A. entry A i k * u ! k) - (\<Sum>k<ncols A. entry A i k * v ! k)"
    by (simp add: right_diff_distrib sum_subtractf)
  also have "\<dots> = map2 (-) (mv A u) (mv A v) ! i"
    using i by (simp add: mv_nth)
  finally show "mv A (map2 (-) u v) ! i = map2 (-) (mv A u) (mv A v) ! i" .
qed

lemma nonsingular_unique:
  assumes ns: "\<not> singular A"
    and lu: "length u = ncols A" and lv: "length v = ncols A"
    and eq: "mv A u = mv A v"
  shows "u = v"
proof -
  let ?d = "map2 (-) u v"
  have "mv A ?d = map2 (-) (mv A v) (mv A v)"
    using lu lv eq by (simp add: mv_diff)
  also have "\<dots> = replicate (nrows A) 0"
    by (rule nth_equalityI) simp_all
  finally have "mv A ?d = replicate (nrows A) 0" .
  moreover have "length ?d = ncols A" using lu lv by simp
  ultimately have d0: "?d = replicate (ncols A) 0"
    using ns unfolding singular_def by blast
  show ?thesis
  proof (rule nth_equalityI)
    show "length u = length v" using lu lv by simp
  next
    fix i assume i: "i < length u"
    then have "?d ! i = replicate (ncols A) 0 ! i" by (simp only: d0)
    then show "u ! i = v ! i" using i lu lv by simp
  qed
qed


subsection \<open>Evaluating concrete runs\<close>

lemmas arr_defs = mk_matrix_def entry_def T_def eye_def smul_def madd_def mv_def mm_def
  dot_mv_def dot_mm_def
lemmas gj_defs = exact_inv_def find_pivot_def eliminate_def swap_rows_def

lemma upt_small: "[0..<2] = [0, 1]" "[0..<3] = [0, 1, 2]" "[1..<2] = [1]" "[1..<3] = [1, 2]"
  "[2..<3] = [2]"
  by (simp_all add: upt_rec)

lemma nonsingular_1x1:
  "c \<noteq> 0 \<Longrightarrow> \<not> singular \<lparr>nrows = 1, ncols = 1, rows = [[c]]\<rparr>"
  by (auto simp: singular_def arr_defs length_Suc_conv)

lemma exact_inv_example:
  "exact_inv \<lparr>nrows = 2, ncols = 2, rows = [[0, 2], [1, 1]]\<rparr>
     = Some \<lparr>nrows = 2, ncols = 2, rows = [[- 1 / 2, 1], [1 / 2, 0]]\<rparr>"
  by (simp add: gj_defs arr_defs upt_small)

lemma project_lower_bound: "project (Some [(Some lo, None)]) [t] = [max lo t]"
  by (simp add: project_def clip_def)

lemmas opt_defs = minimize_one_step_def project_def clip_def
lemmas mle_defs = lik_model_def lik_model_kwargs_def theta_estimate_def log_likelihood_def
  factorial_def f_fact_def np_log_def

subsection \<open>The Poisson objective\<close>

lemma map_err_f_fact:
  "\<forall>k\<in>set ks. 0 \<le> k \<Longrightarrow> map_err f_fact ks = Inr (map (\<lambda>k. fact (nat k)) ks)"
  by (induction ks) (simp_all add: f_fact_def)

subsection \<open>The claims\<close>

lemma func_penalty_is_plain_sum:
  "ncols x = length w \<Longrightarrow> length y = nrows x \<Longrightarrow>
   func w y x lam = Inr (sum_list (map (\<lambda>t. t ^ 2) (map2 (-) y (mv x w))) + lam * sum_list w)"
  by (simp add: func_def dot_mv_def vsub_def mv_def)

text \<open>
  Claim C1. The specification says that the objective minimised by the lasso fit is
  the residual sum of squares plus \<open>lam\<close> times the L1 norm of \<open>w\<close>. The code's
  objective adds \<open>lam\<close> times the plain sum of the coefficients instead: for the
  one-by-one design matrix \<open>[[1]]\<close>, the response \<open>[0]\<close>, \<open>lam = 1\<close> and the
  coefficient vector \<open>[-1]\<close> the code's objective is \<open>1 + 1 * (-1) = 0\<close>, where the
  L1-penalised objective is \<open>1 + 1 * 1 = 2\<close>.
\<close>

theorem lasso_objective_not_l1:
  "func [-1] [0] \<lparr>nrows = 1, ncols = 1, rows = [[1]]\<rparr> 1 = Inr 0 \<and>
   lasso_objective_spec [-1] [0] \<lparr>nrows = 1, ncols = 1, rows = [[1]]\<rparr> 1 = Inr 2"
  by (simp add: func_def lasso_objective_spec_def l1_norm_def dot_mv_def vsub_def mv_def
      entry_def)

text \<open>
  Claim C2. Let \<open>C = l * I + X\<^sup>T X\<close> be nonsingular, let the inverse routine return
  an inverse \<open>Ci\<close> of \<open>C\<close>, and let \<open>y\<close> have one entry per row of \<open>X\<close>. Then the ridge
  fit stores the coefficient vector \<open>w = Ci (X\<^sup>T y)\<close>, this \<open>w\<close> solves the
  regularised normal equations \<open>(l * I + X\<^sup>T X) w = X\<^sup>T y\<close>, and it is their only
  solution. The statement holds for every \<open>l\<close>, in particular for \<open>l \<ge> 0\<close>; in exact
  arithmetic the equation holds exactly.
\<close>

theorem ridge_fit_normal_equations:
  assumes "\<not> singular (ridge_C l X)"
    and "linv (ridge_C l X) = Some Ci"
    and "nrows Ci = ncols X" and "ncols Ci = ncols X"
    and "mm (ridge_C l X) Ci = eye (ncols X)"
    and "nrows X = length y"
  shows "ridge_fit linv X y l (g, self) = (g, Inr (self\<lparr>self_w := Some (mv Ci (mv (T X) y))\<rparr>))
       \<and> mv (ridge_C l X) (mv Ci (mv (T X) y)) = mv (T X) y
       \<and> (\<forall>w'. length w' = ncols X \<and> mv (ridge_C l X) w' = mv (T X) y
              \<longrightarrow> w' = mv Ci (mv (T X) y))"
proof (intro conjI allI impI)
  show "ridge_fit linv X y l (g, self) = (g, Inr (self\<lparr>self_w := Some (mv Ci (mv (T X) y))\<rparr>))"
    using assms by (simp add: ridge_fit_unfold)
next
  have len: "length (mv (T X) y) = ncols X" by (simp add: T_def)
  have "ncols (ridge_C l X) = nrows Ci" using assms by simp
  then have "mv (ridge_C l X) (mv Ci (mv (T X) y)) = mv (mm (ridge_C l X) Ci) (mv (T X) y)"
    by (rule mv_assoc)
  also have "\<dots> = mv (eye (ncols X)) (mv (T X) y)"
    using assms by simp
  also have "\<dots> = mv (T X) y"
    using len by (rule mv_eye)
  finally show solves: "mv (ridge_C l X) (mv Ci (mv (T X) y)) = mv (T X) y" .
  fix w' assume w': "length w' = ncols X \<and> mv (ridge_C l X) w' = mv (T X) y"
  show "w' = mv Ci (mv (T X) y)"
  proof (rule nonsingular_unique [OF assms(1)])
    show "length w' = ncols (ridge_C l X)" using w' by simp
    show "length (mv Ci (mv (T X) y)) = ncols (ridge_C l X)" using assms by simp
    show "mv (ridge_C l X) w' = mv (ridge_C l X) (mv Ci (mv (T X) y))"
      using w' solves by simp
  qed
qed

text \<open>
  The scenario of the specification: \<open>X = [[1], [2], [3]]\<close>, \<open>y = [1, 2, 3]\<close>, \<open>l = 0\<close>
  gives \<open>C = [[14]]\<close>, the inverse \<open>[[1/14]]\<close> and \<open>w = [1]\<close>.
\<close>

theorem ridge_fit_normal_equations_witness:
  "ridge_fit exact_inv \<lparr>nrows = 3, ncols = 1, rows = [[1], [2], [3]]\<rparr> [1, 2, 3] 0
     (0::nat, \<lparr>self_w = None\<rparr>) = (0, Inr \<lparr>self_w = Some [1]\<rparr>)
   \<and> mv (ridge_C 0 \<lparr>nrows = 3, ncols = 1, rows = [[1], [2], [3]]\<rparr>) [1]
       = mv (T \<lparr>nrows = 3, ncols = 1, rows = [[1], [2], [3]]\<rparr>) [1, 2, 3]"
proof -
  let ?X = "\<lparr>nrows = 3, ncols = 1, rows = [[1], [2], [3]]\<rparr>"
  let ?Ci = "\<lparr>nrows = 1, ncols = 1, rows = [[1 / 14]]\<rparr>"
  have C: "ridge_C 0 ?X = \<lparr>nrows = 1, ncols = 1, rows = [[14]]\<rparr>"
    by (simp add: ridge_C_def arr_defs upt_small)
  have h0: "\<not> singular (ridge_C 0 ?X)"
    unfolding C by (rule nonsingular_1x1) simp
  have h1: "exact_inv (ridge_C 0 ?X) = Some ?Ci"
    unfolding C by (simp add: gj_defs arr_defs)
  have h2: "nrows ?Ci = ncols ?X" and h3: "ncols ?Ci = ncols ?X" by simp_all
  have h4: "mm (ridge_C 0 ?X) ?Ci = eye (ncols ?X)"
    unfolding C by (simp add: arr_defs)
  have h5: "nrows ?X = length [1, 2, 3 :: real]" by simp
  from ridge_fit_normal_equations
    [where linv = exact_inv and l = 0 and X = ?X and Ci = ?Ci and y = "[1, 2, 3]"
       and g = "0::nat" and self = "\<lparr>self_w = None\<rparr>", OF h0 h1 h2 h3 h4 h5]
  show ?thesis by (simp add: arr_defs upt_small)
qed

text \<open>
  Claim C3 says that a negative regularisation strength makes both fits raise an
  invalid-argument error. Neither method looks at the sign of its argument. With
  \<open>X = [[2]]\<close>, \<open>y = [1]\<close> and \<open>l = -3\<close> the ridge fit computes \<open>C = [[1]]\<close> and stores
  \<open>w = [2]\<close>; the lasso fit draws its initial guess and stores what the optimiser hands
  back.
\<close>

theorem negative_lambda_not_rejected:
  "ridge_fit exact_inv \<lparr>nrows = 1, ncols = 1, rows = [[2]]\<rparr> [1] (- 3)
     (0::nat, \<lparr>self_w = None\<rparr>) = (0, Inr \<lparr>self_w = Some [2]\<rparr>)
   \<and> lasso_fit (minimize_one_step 0) lcg_rand \<lparr>nrows = 1, ncols = 1, rows = [[2]]\<rparr> [1] (- 3)
     (0, \<lparr>self_w = None\<rparr>) = (3, Inr \<lparr>self_w = Some [3 / 16]\<rparr>)"
  by (simp add: ridge_fit_def lasso_fit_def minimize_one_step_def project_def func_def vsub_def
      gj_defs arr_defs)

text \<open>
  Claim C3, amended. For a negative \<open>l\<close> the fits do what they do for any other
  \<open>l\<close>: the ridge fit stores \<open>Ci (X\<^sup>T y)\<close> as soon as the inverse routine returns
  \<open>Ci\<close> for \<open>C = l * I + X\<^sup>T X\<close>, and the lasso fit stores the \<open>x\<close> of the result
  that the optimiser returns for the objective with this \<open>l\<close>, started at the vector
  drawn from the random number generator. No exception is raised on account of the
  sign.
\<close>

theorem fit_ignores_sign_of_lambda:
  assumes "l < 0"
    and "linv (ridge_C l X) = Some Ci" and "ncols Ci = ncols X" and "nrows X = length y"
    and "rand (ncols X) g = (w0, g')"
    and "minimize (\<lambda>w. func w y X l) w0 \<lparr>kw_method = None, kw_bounds = None\<rparr> = Inr res"
  shows "ridge_fit linv X y l (g, self) = (g, Inr (self\<lparr>self_w := Some (mv Ci (mv (T X) y))\<rparr>))
       \<and> lasso_fit minimize rand X y l (g, self) = (g', Inr (self\<lparr>self_w := Some (res_x res)\<rparr>))"
  using assms by (simp add: ridge_fit_unfold lasso_fit_def)

theorem fit_ignores_sign_of_lambda_witness:
  "(- 1 :: real) < 0
   \<and> ridge_fit exact_inv \<lparr>nrows = 1, ncols = 1, rows = [[2]]\<rparr> [1] (- 1)
       (0::nat, \<lparr>self_w = None\<rparr>) = (0, Inr \<lparr>self_w = Some [2 / 3]\<rparr>)
   \<and> lasso_fit (minimize_one_step 0) lcg_rand \<lparr>nrows = 1, ncols = 1, rows = [[2]]\<rparr> [1] (- 1)
       (0, \<lparr>self_w = None\<rparr>) = (3, Inr \<lparr>self_w = Some [3 / 16]\<rparr>)"
proof -
  let ?X = "\<lparr>nrows = 1, ncols = 1, rows = [[2]]\<rparr>"
  let ?Ci = "\<lparr>nrows = 1, ncols = 1, rows = [[1 / 3]]\<rparr>"
  have h1: "(- 1 :: real) < 0" by simp
  have h2: "exact_inv (ridge_C (- 1) ?X) = Some ?Ci"
    by (simp add: ridge_C_def gj_defs arr_defs)
  have h3: "ncols ?Ci = ncols ?X" and h4: "nrows ?X = length [1 :: real]" by simp_all
  have h5: "lcg_rand (ncols ?X) 0 = ([3 / 16], 3)" by simp
  have h6: "minimize_one_step 0 (\<lambda>w. func w [1] ?X (- 1)) [3 / 16]
      \<lparr>kw_method = None, kw_bounds = None\<rparr>
      = Inr \<lparr>res_x = [3 / 16], res_success = False, res_fun = 13 / 64, res_nit = 1\<rparr>"
    by (simp add: minimize_one_step_def project_def func_def vsub_def arr_defs power2_eq_square)
  from fit_ignores_sign_of_lambda
    [where linv = exact_inv and rand = lcg_rand and minimize = "minimize_one_step 0"
       and self = "\<lparr>self_w = None\<rparr>", OF h1 h2 h3 h4 h5 h6] h1
  show ?thesis by (simp add: arr_defs)
qed






text \<open>
  Claim C5. For the empty sequence of counts the estimate raises an invalid-argument
  error and returns no number. The code has no check of its own: the exception is the
  \<^verbatim>\<open>ValueError\<close> (Python's exception for an argument of the right type and a wrong
  value) that numpy's vectorised \<^verbatim>\<open>factorial\<close> raises on an array without elements,
  the first time the optimiser evaluates the objective. The optimiser is any routine
  that lets through an exception raised by the objective at the initial guess.
\<close>

theorem theta_estimate_empty:
  assumes "\<And>obj x0 kw e. obj x0 = Inl e \<Longrightarrow> minimize obj x0 kw = Inl e"
  shows "theta_estimate minimize [] = Inl ValueError"
proof -
  have "(case [3::real] of [t] \<Rightarrow> log_likelihood t [] | _ \<Rightarrow> Inl ValueError) = Inl ValueError"
    by (simp add: log_likelihood_def factorial_def)
  then have "lik_model minimize [] = Inl ValueError"
    unfolding lik_model_def by (rule assms)
  then show ?thesis by (simp add: theta_estimate_def)
qed

theorem theta_estimate_empty_witness:
  "theta_estimate (minimize_one_step 0) [] = Inl ValueError"
proof -
  have "\<And>obj x0 kw e. obj x0 = Inl e \<Longrightarrow>
      (minimize_one_step 0 :: npfloat minimize) obj x0 kw = Inl e"
    by (simp add: minimize_one_step_def)
  then show ?thesis by (rule theta_estimate_empty)
qed

text \<open>
  Claim C6 says that a run of the optimiser that reports no success makes the call
  raise a convergence error. Neither call reads the \<^verbatim>\<open>success\<close> field: with an
  optimiser that gives up at the initial guess and reports \<^verbatim>\<open>success = False\<close>, the
  lasso fit stores that guess and the Poisson estimate is the initial guess \<open>3\<close>.
\<close>

theorem nonconvergence_silently_accepted:
  "map_sum id res_success
     (minimize_one_step 0 (\<lambda>w. func w [1] \<lparr>nrows = 1, ncols = 1, rows = [[2]]\<rparr> 1) [3 / 16]
        \<lparr>kw_method = None, kw_bounds = None\<rparr>) = Inr False
   \<and> lasso_fit (minimize_one_step 0) lcg_rand \<lparr>nrows = 1, ncols = 1, rows = [[2]]\<rparr> [1] 1
       (0, \<lparr>self_w = None\<rparr>) = (3, Inr \<lparr>self_w = Some [3 / 16]\<rparr>)
   \<and> map_sum id res_success (lik_model (minimize_one_step 0) [1, 0, 4, 1, 5]) = Inr False
   \<and> theta_estimate (minimize_one_step 0) [1, 0, 4, 1, 5] = Inr 3"
  by (simp add: lasso_fit_def opt_defs mle_defs func_def vsub_def arr_defs)

text \<open>
  Claim C6, amended. When the optimiser returns a result object that reports no
  success, the lasso fit stores the \<open>x\<close> of that result as the fitted vector, and the
  Poisson estimate is the first entry of that \<open>x\<close>; no exception is raised, and the
  objective value and the iteration count of the result are dropped.
\<close>

theorem fit_keeps_result_of_failed_optimiser:
  assumes "rand (ncols X) g = (w0, g')"
    and "minimize (\<lambda>w. func w y X lam) w0 \<lparr>kw_method = None, kw_bounds = None\<rparr> = Inr res"
    and "\<not> res_success res"
    and "lik_model minimize' ks = Inr res'"
    and "\<not> res_success res'"
    and "res_x res' = t # ts"
  shows "lasso_fit minimize rand X y lam (g, self) = (g', Inr (self\<lparr>self_w := Some (res_x res)\<rparr>))
       \<and> theta_estimate minimize' ks = Inr t"
  using assms by (simp add: lasso_fit_def theta_estimate_def)

theorem fit_keeps_result_of_failed_optimiser_witness:
  "lasso_fit (minimize_one_step 0) lcg_rand \<lparr>nrows = 1, ncols = 1, rows = [[2]]\<rparr> [1] 1
       (0, \<lparr>self_w = None\<rparr>) = (3, Inr \<lparr>self_w = Some [3 / 16]\<rparr>)
   \<and> theta_estimate (minimize_one_step 0) [1, 0, 4, 1, 5] = Inr 3"
proof -
  let ?X = "\<lparr>nrows = 1, ncols = 1, rows = [[2]]\<rparr>"
  let ?res = "\<lparr>res_x = [3 / 16], res_success = False, res_fun = 37 / 64 :: real, res_nit = 1\<rparr>"
  let ?v = "Finite (real (length [1, 0, 4, 1, 5 :: int]) * 3 - real_of_int (sum_list [1, 0, 4, 1, 5]) * ln 3
      + sum_list (map (\<lambda>k. ln (real k)) [fact (nat 1), fact (nat 0), fact (nat 4), fact (nat 1), fact (nat 5)]))"
  let ?res' = "\<lparr>res_x = [3], res_success = False, res_fun = ?v, res_nit = 1\<rparr>"
  have h1: "lcg_rand (ncols ?X) 0 = ([3 / 16], 3)" by simp
  have h2: "minimize_one_step 0 (\<lambda>w. func w [1] ?X 1) [3 / 16]
      \<lparr>kw_method = None, kw_bounds = None\<rparr> = Inr ?res"
    by (simp add: opt_defs func_def vsub_def arr_defs power2_eq_square)
  have h3: "\<not> res_success ?res" by simp
  have h4: "lik_model (minimize_one_step 0) [1, 0, 4, 1, 5] = Inr ?res'"
    by (simp add: opt_defs mle_defs)
  have h5: "\<not> res_success ?res'" by simp
  have h6: "res_x ?res' = 3 # []" by simp
  from fit_keeps_result_of_failed_optimiser
    [where rand = lcg_rand and minimize = "minimize_one_step 0"
       and minimize' = "minimize_one_step 0" and X = ?X and y = "[1]" and lam = 1
       and self = "\<lparr>self_w = None\<rparr>", OF h1 h2 h3 h4 h5 h6]
  show ?thesis by simp
qed

text \<open>
  Claim C7 says that the rate is kept inside \<open>(0, \<infinity>)\<close>, by bounds or by clamping, so
  that the objective is never evaluated at a rate \<open>\<le> 0\<close>. The call gives the optimiser
  no bounds and the objective does not clamp: an optimiser whose trial step from the
  initial guess \<open>3\<close> has length \<open>3\<close> evaluates the objective at \<open>0\<close>, where its value is
  not finite, and the estimate is \<open>0\<close>.
\<close>

theorem objective_evaluated_at_zero:
  "lik_model (minimize_one_step 3) [1, 0, 4, 1, 5]
     = Inr \<lparr>res_x = [0], res_success = False, res_fun = NotFinite, res_nit = 1\<rparr>
   \<and> theta_estimate (minimize_one_step 3) [1, 0, 4, 1, 5] = Inr 0
   \<and> kw_bounds lik_model_kwargs = None"
  by (simp add: opt_defs mle_defs)

text \<open>
  Claim C7, amended. The call passes no bounds to the optimiser, and the objective
  accepts every rate: on a non-empty sequence of counts between 0 and 20, at a rate
  \<open>\<le> 0\<close> it returns a value that is not finite (without raising and without clamping
  the rate), and at a rate \<open>> 0\<close> it returns the negative log-likelihood
  \<open>n * theta - (\<Sum> k) * ln theta + \<Sum> ln (k!)\<close>.
\<close>

theorem log_likelihood_not_constrained:
  assumes "ks \<noteq> []" and "\<forall>k\<in>set ks. 0 \<le> k" and "\<forall>k\<in>set ks. k \<le> 20"
  shows "kw_bounds lik_model_kwargs = None
       \<and> (theta \<le> 0 \<longrightarrow> log_likelihood theta ks = Inr NotFinite)
       \<and> (0 < theta \<longrightarrow> log_likelihood theta ks =
            Inr (Finite (real (length ks) * theta - real_of_int (sum_list ks) * ln theta
                         + sum_list (map (\<lambda>k. ln (fact (nat k))) ks))))"
  using assms
  by (simp add: lik_model_kwargs_def log_likelihood_def factorial_def np_log_def
      map_err_f_fact comp_def)

theorem log_likelihood_not_constrained_witness:
  "kw_bounds lik_model_kwargs = None
   \<and> log_likelihood (- 1) [1, 0, 4, 1, 5] = Inr NotFinite
   \<and> log_likelihood 0 [1, 0, 4, 1, 5] = Inr NotFinite
   \<and> (\<exists>r. log_likelihood 3 [1, 0, 4, 1, 5] = Inr (Finite r))"
proof -
  have h1: "[1, 0, 4, 1, 5 :: int] \<noteq> []" and h2: "\<forall>k\<in>set [1, 0, 4, 1, 5 :: int]. 0 \<le> k"
    and h3: "\<forall>k\<in>set [1, 0, 4, 1, 5 :: int]. k \<le> 20"
    by simp_all
  from log_likelihood_not_constrained [OF h1 h2 h3, of "- 1"]
    log_likelihood_not_constrained [OF h1 h2 h3, of 0]
    log_likelihood_not_constrained [OF h1 h2 h3, of 3]
  show ?thesis by simp
qed

text \<open>
  Claim C8. The ridge fit is deterministic: the vector it stores (or the exception it
  raises) is a function of \<open>X\<close>, \<open>y\<close> and \<open>l\<close> alone. It is the same from every state of
  the random number generator and from every earlier state of the estimator, and the
  fit leaves the generator as it found it. (With exact numbers, equal means
  identical.)
\<close>

theorem ridge_fit_deterministic:
  "map_sum id self_w (snd (ridge_fit linv X y l (g1, self1)))
     = map_sum id self_w (snd (ridge_fit linv X y l (g2, self2)))
   \<and> fst (ridge_fit linv X y l (g1, self1)) = g1"
  by (simp add: ridge_fit_unfold split: option.splits)

text \<open>
  Claim C9 says that the fitted vector is never replaced once a fit has returned, and
  that \<^verbatim>\<open>predict\<close> keeps using the vector of the first fit. A second fit assigns
  \<^verbatim>\<open>self.w\<close> again: after fitting \<open>X = [[2]]\<close> to \<open>y = [1]\<close> the estimator holds
  \<open>[1/2]\<close>, after fitting the same estimator to \<open>y = [2]\<close> it holds \<open>[1]\<close>, and
  \<^verbatim>\<open>predict\<close> on \<open>X\<close> changes from \<open>[1]\<close> to \<open>[2]\<close>.
\<close>

theorem second_fit_replaces_w:
  "ridge_fit exact_inv \<lparr>nrows = 1, ncols = 1, rows = [[2]]\<rparr> [1] 0 (0::nat, \<lparr>self_w = None\<rparr>)
     = (0, Inr \<lparr>self_w = Some [1 / 2]\<rparr>)
   \<and> ridge_fit exact_inv \<lparr>nrows = 1, ncols = 1, rows = [[2]]\<rparr> [2] 0
       (0::nat, \<lparr>self_w = Some [1 / 2]\<rparr>) = (0, Inr \<lparr>self_w = Some [1]\<rparr>)
   \<and> predict \<lparr>nrows = 1, ncols = 1, rows = [[2]]\<rparr> \<lparr>self_w = Some [1 / 2]\<rparr> = Inr [1]
   \<and> predict \<lparr>nrows = 1, ncols = 1, rows = [[2]]\<rparr> \<lparr>self_w = Some [1]\<rparr> = Inr [2]"
  by (simp add: ridge_fit_def predict_def gj_defs arr_defs)

text \<open>
  Claim C9, amended. Every successful fit, ridge or lasso, replaces the vector the
  estimator holds: after a second fit the estimator is what a fresh estimator would
  be after that fit alone, and \<^verbatim>\<open>predict\<close> multiplies its argument with the vector of
  the latest fit.
\<close>

theorem fit_overwrites_w:
  assumes "ridge_fit linv X y l (g, self) = (g1, Inr self1)"
    and "ridge_fit linv X2 y2 l2 (g1, self1) = (g2, Inr self2)"
    and "lasso_fit minimize rand X y l (h, lself) = (h1, Inr lself1)"
    and "lasso_fit minimize rand X2 y2 l2 (h1, lself1) = (h2, Inr lself2)"
  shows "ridge_fit linv X2 y2 l2 (g1, \<lparr>self_w = None\<rparr>) = (g2, Inr self2)
       \<and> (\<exists>w2. self_w self2 = Some w2 \<and> predict Z self2 = dot_mv Z w2)
       \<and> lasso_fit minimize rand X2 y2 l2 (h1, \<lparr>self_w = None\<rparr>) = (h2, Inr lself2)
       \<and> (\<exists>w2. self_w lself2 = Some w2 \<and> predict Z lself2 = dot_mv Z w2)"
  using assms(2,4)
  by (auto simp: ridge_fit_unfold lasso_fit_def predict_def
      split: option.splits if_splits sum.splits prod.splits)

theorem fit_overwrites_w_witness:
  "ridge_fit exact_inv \<lparr>nrows = 1, ncols = 1, rows = [[2]]\<rparr> [2] 0 (0::nat, \<lparr>self_w = None\<rparr>)
     = (0, Inr \<lparr>self_w = Some [1]\<rparr>)
   \<and> predict \<lparr>nrows = 1, ncols = 1, rows = [[2]]\<rparr> \<lparr>self_w = Some [1]\<rparr> = Inr [2]
   \<and> lasso_fit (minimize_one_step 0) lcg_rand \<lparr>nrows = 1, ncols = 1, rows = [[2]]\<rparr> [2] 0
       (3, \<lparr>self_w = None\<rparr>) = (2, Inr \<lparr>self_w = Some [1 / 8]\<rparr>)
   \<and> predict \<lparr>nrows = 1, ncols = 1, rows = [[2]]\<rparr> \<lparr>self_w = Some [1 / 8]\<rparr> = Inr [1 / 4]"
proof -
  let ?X = "\<lparr>nrows = 1, ncols = 1, rows = [[2]]\<rparr>"
  have h1: "ridge_fit exact_inv ?X [1] 0 (0::nat, \<lparr>self_w = None\<rparr>)
      = (0, Inr \<lparr>self_w = Some [1 / 2]\<rparr>)"
    by (simp add: ridge_fit_def gj_defs arr_defs)
  have h2: "ridge_fit exact_inv ?X [2] 0 (0::nat, \<lparr>self_w = Some [1 / 2]\<rparr>)
      = (0, Inr \<lparr>self_w = Some [1]\<rparr>)"
    by (simp add: ridge_fit_def gj_defs arr_defs)
  have h3: "lasso_fit (minimize_one_step 0) lcg_rand ?X [1] 0 (0, \<lparr>self_w = None\<rparr>)
      = (3, Inr \<lparr>self_w = Some [3 / 16]\<rparr>)"
    by (simp add: lasso_fit_def opt_defs func_def vsub_def arr_defs)
  have h4: "lasso_fit (minimize_one_step 0) lcg_rand ?X [2] 0 (3, \<lparr>self_w = Some [3 / 16]\<rparr>)
      = (2, Inr \<lparr>self_w = Some [1 / 8]\<rparr>)"
    by (simp add: lasso_fit_def opt_defs func_def vsub_def arr_defs)
  from fit_overwrites_w [OF h1 h2 h3 h4, of ?X]
  show ?thesis by (simp add: dot_mv_def mv_def entry_def)
qed

text \<open>
  Claim C10. The lasso fit depends on the hidden state of the global random number
  generator: the initial guess is drawn from it, the state is advanced, and the vector
  stored is the one the optimiser returns from that guess. Two calls with the same
  \<open>X\<close>, \<open>y\<close> and \<open>lam\<close>, made in generator states whose draws lead the optimiser to
  different results, store different vectors.
\<close>

theorem lasso_fit_depends_on_rng:
  assumes "rand (ncols X) g1 = (w1, g1')" and "rand (ncols X) g2 = (w2, g2')"
    and "minimize (\<lambda>w. func w y X lam) w1 \<lparr>kw_method = None, kw_bounds = None\<rparr> = Inr r1"
    and "minimize (\<lambda>w. func w y X lam) w2 \<lparr>kw_method = None, kw_bounds = None\<rparr> = Inr r2"
    and "res_x r1 \<noteq> res_x r2"
  shows "lasso_fit minimize rand X y lam (g1, self) = (g1', Inr (self\<lparr>self_w := Some (res_x r1)\<rparr>))
       \<and> lasso_fit minimize rand X y lam (g2, self) = (g2', Inr (self\<lparr>self_w := Some (res_x r2)\<rparr>))
       \<and> snd (lasso_fit minimize rand X y lam (g1, self))
           \<noteq> snd (lasso_fit minimize rand X y lam (g2, self))"
proof -
  have "self\<lparr>self_w := Some (res_x r1)\<rparr> \<noteq> self\<lparr>self_w := Some (res_x r2)\<rparr>"
  proof
    assume "self\<lparr>self_w := Some (res_x r1)\<rparr> = self\<lparr>self_w := Some (res_x r2)\<rparr>"
    then have "self_w (self\<lparr>self_w := Some (res_x r1)\<rparr>)
        = self_w (self\<lparr>self_w := Some (res_x r2)\<rparr>)"
      by (rule arg_cong)
    with assms(5) show False by simp
  qed
  with assms(1-4) show ?thesis by (simp add: lasso_fit_def)
qed

text \<open>
  Two calls in a row, the second in the generator state the first has left: with an
  optimiser that returns its initial guess they store \<open>[3/16]\<close> and \<open>[1/8]\<close>.
\<close>

theorem lasso_fit_depends_on_rng_witness:
  "lasso_fit (minimize_one_step 0) lcg_rand \<lparr>nrows = 1, ncols = 1, rows = [[2]]\<rparr> [1] 1
       (0, \<lparr>self_w = None\<rparr>) = (3, Inr \<lparr>self_w = Some [3 / 16]\<rparr>)
   \<and> lasso_fit (minimize_one_step 0) lcg_rand \<lparr>nrows = 1, ncols = 1, rows = [[2]]\<rparr> [1] 1
       (3, \<lparr>self_w = None\<rparr>) = (2, Inr \<lparr>self_w = Some [1 / 8]\<rparr>)
   \<and> snd (lasso_fit (minimize_one_step 0) lcg_rand \<lparr>nrows = 1, ncols = 1, rows = [[2]]\<rparr> [1] 1
            (0, \<lparr>self_w = None\<rparr>))
       \<noteq> snd (lasso_fit (minimize_one_step 0) lcg_rand \<lparr>nrows = 1, ncols = 1, rows = [[2]]\<rparr> [1] 1
            (3, \<lparr>self_w = None\<rparr>))"
proof -
  let ?X = "\<lparr>nrows = 1, ncols = 1, rows = [[2]]\<rparr>"
  let ?kw = "\<lparr>kw_method = None, kw_bounds = None\<rparr>"
  let ?r1 = "\<lparr>res_x = [3 / 16], res_success = False, res_fun = 37 / 64 :: real, res_nit = 1\<rparr>"
  let ?r2 = "\<lparr>res_x = [1 / 8], res_success = False, res_fun = 11 / 16 :: real, res_nit = 1\<rparr>"
  have h1: "lcg_rand (ncols ?X) 0 = ([3 / 16], 3)" by simp
  have h2: "lcg_rand (ncols ?X) 3 = ([1 / 8], 2)" by simp
  have h3: "minimize_one_step 0 (\<lambda>w. func w [1] ?X 1) [3 / 16] ?kw = Inr ?r1"
    by (simp add: opt_defs func_def vsub_def arr_defs power2_eq_square)
  have h4: "minimize_one_step 0 (\<lambda>w. func w [1] ?X 1) [1 / 8] ?kw = Inr ?r2"
    by (simp add: opt_defs func_def vsub_def arr_defs power2_eq_square)
  have h5: "res_x ?r1 \<noteq> res_x ?r2" by simp
  from lasso_fit_depends_on_rng
    [where rand = lcg_rand and minimize = "minimize_one_step 0" and X = ?X and y = "[1]"
       and lam = 1 and self = "\<lparr>self_w = None\<rparr>", OF h1 h2 h3 h4 h5]
  show ?thesis by simp
qed

end
